theory Spec2Isabelle
  imports Main
begin

unbundle bit_operations_syntax

section \<open>Permission bit masks (src/utils/permissions.ts)\<close>

text \<open>
  The source computes with JavaScript \<open>bigint\<close> values, which are unbounded two's
  complement integers: they are modelled by \<open>int\<close>, whose \<open>AND\<close>, \<open>OR\<close> and
  \<open>push_bit\<close> are the same operations. Strings are lists of bytes.
\<close>

subsection \<open>Decimal text of a bigint\<close>

text \<open>
  \<open>bigint_toString\<close> is \<open>BigInt.prototype.toString()\<close> in radix 10: the decimal digits,
  most significant first, no leading zero, a leading minus sign for negative values.
\<close>

definition digit_char :: "nat \<Rightarrow> char" where
  "digit_char d = char_of (48 + d)"

function nat_digits :: "nat \<Rightarrow> string" where
  "nat_digits n = (if n < 10 then [digit_char n] else nat_digits (n div 10) @ [digit_char (n mod 10)])"
  by pat_completeness auto
termination
  by (relation "measure id") auto

declare nat_digits.simps [simp del]

definition bigint_toString :: "int \<Rightarrow> string" where
  "bigint_toString n = (if n < 0 then CHR ''-'' # nat_digits (nat (- n)) else nat_digits (nat n))"

subsection \<open>JavaScript numbers\<close>

text \<open>
  A JavaScript number is modelled when it is a safe integer, an integer of magnitude
  below \<open>2^53\<close>. Every safe integer is a double, and \<open>Number.prototype.toString\<close>,
  which \<open>String\<close>, \<open>JSON.stringify\<close> and the conversion of a value to text all
  use, renders it as its decimal numeral. Fractions, larger magnitudes, NaN and the
  infinities have no value in this type. \<open>safe_integer_of\<close> names the number of an
  integer in range, for writing concrete data; it is made total by sending every other
  integer to the number 0.
\<close>

typedef safe_integer = "{n :: int. \<bar>n\<bar> < 2 ^ 53}"
  morphisms integer_value Abs_safe_integer
  by (rule exI [of _ 0]) simp

setup_lifting type_definition_safe_integer

lift_definition safe_integer_of :: "int \<Rightarrow> safe_integer" is
  "\<lambda>n. if \<bar>n\<bar> < 2 ^ 53 then n else 0"
  by simp

instantiation safe_integer :: equal
begin

definition equal_safe_integer :: "safe_integer \<Rightarrow> safe_integer \<Rightarrow> bool" where
  "equal_safe_integer a b = (integer_value a = integer_value b)"

instance
  by standard (simp add: equal_safe_integer_def integer_value_inject)

end

definition Number_toString :: "safe_integer \<Rightarrow> string" where
  "Number_toString n = bigint_toString (integer_value n)"

subsection \<open>\<open>BigInt(string)\<close>\<close>

text \<open>
  \<open>BigInt(s)\<close> on a string follows ECMAScript's StringToBigInt: white space is trimmed at
  both ends, the empty text is \<open>0\<close>, then either an optionally signed run of decimal
  digits or an unsigned \<open>0x\<close>, \<open>0o\<close> or \<open>0b\<close> literal; anything else throws a
  SyntaxError. Only the white space of ASCII is modelled.
\<close>

definition is_white_space :: "char \<Rightarrow> bool" where
  "is_white_space c = ((of_char c :: nat) \<in> {9, 10, 11, 12, 13, 32})"

definition trim :: "string \<Rightarrow> string" where
  "trim s = rev (dropWhile is_white_space (rev (dropWhile is_white_space s)))"

definition digit_value :: "nat \<Rightarrow> char \<Rightarrow> nat option" where
  "digit_value radix c =
     (let k = (of_char c :: nat);
          v = (if 48 \<le> k \<and> k \<le> 57 then k - 48
               else if 97 \<le> k \<and> k \<le> 122 then k - 87
               else if 65 \<le> k \<and> k \<le> 90 then k - 55
               else radix)
      in if v < radix then Some v else None)"

fun parse_digits_from :: "nat \<Rightarrow> nat \<Rightarrow> string \<Rightarrow> nat option" where
  "parse_digits_from radix acc [] = Some acc"
| "parse_digits_from radix acc (c # cs) =
     (case digit_value radix c of
        None \<Rightarrow> None
      | Some d \<Rightarrow> parse_digits_from radix (acc * radix + d) cs)"

definition parse_digits :: "nat \<Rightarrow> string \<Rightarrow> nat option" where
  "parse_digits radix s = (if s = [] then None else parse_digits_from radix 0 s)"

definition radix_of_prefix :: "char \<Rightarrow> nat option" where
  "radix_of_prefix c =
     (if c = CHR ''x'' \<or> c = CHR ''X'' then Some 16
      else if c = CHR ''o'' \<or> c = CHR ''O'' then Some 8
      else if c = CHR ''b'' \<or> c = CHR ''B'' then Some 2
      else None)"

definition StringToBigInt :: "string \<Rightarrow> int option" where
  "StringToBigInt str =
     (case trim str of
        [] \<Rightarrow> Some 0
      | c # cs \<Rightarrow>
          if c = CHR ''+'' then map_option int (parse_digits 10 cs)
          else if c = CHR ''-'' then map_option (\<lambda>n. - int n) (parse_digits 10 cs)
          else (case (if c = CHR ''0'' then (case cs of [] \<Rightarrow> None | x # _ \<Rightarrow> radix_of_prefix x) else None) of
                  Some radix \<Rightarrow> map_option int (parse_digits radix (tl cs))
                | None \<Rightarrow> map_option int (parse_digits 10 (c # cs))))"

subsection \<open>Errors\<close>

text \<open>
  JSON values as \<open>response.json()\<close> delivers them. An object is the list of its own
  properties, each name once; numbers are the safe integers.
\<close>

datatype json =
    JNull
  | JBool bool
  | JNum safe_integer
  | JStr string
  | JArr "json list"
  | JObj "(string \<times> json) list"

text \<open>
  The error classes of structures/errors.ts, all subclasses of \<open>OAuth2Error\<close>, together
  with the exceptions of the platform that the code lets through: the SyntaxError of
  \<open>BigInt\<close> and of \<open>response.json()\<close>, the TypeError of a failed conversion to
  text, and the rejection of \<open>fetch\<close> itself. Every class carries the message that
  \<open>Error\<close> stores, a string. \<open>DiscordAPIRequestError\<close> has three more fields: the
  status code, and \<open>code\<close> and \<open>errors\<close>, which hold whatever the error data has
  under these names (\<open>None\<close> is \<open>undefined\<close>).
\<close>

datatype error =
    OAuth2Error string
  | DiscordAPIRequestError string nat "json option" "json option"
  | ConfigurationError string
  | ValidationError string
  | SyntaxError
  | TypeError
  | FetchFailed

definition BigInt :: "string \<Rightarrow> error + int" where
  "BigInt str = (case StringToBigInt str of None \<Rightarrow> Inl SyntaxError | Some n \<Rightarrow> Inr n)"

subsection \<open>The flag table and the three helpers\<close>

definition PermissionFlags :: "(string \<times> int) list" where
  "PermissionFlags =
    [(''CREATE_INSTANT_INVITE'', push_bit 0 1),
     (''KICK_MEMBERS'', push_bit 1 1),
     (''BAN_MEMBERS'', push_bit 2 1),
     (''ADMINISTRATOR'', push_bit 3 1),
     (''MANAGE_CHANNELS'', push_bit 4 1),
     (''MANAGE_GUILD'', push_bit 5 1),
     (''ADD_REACTIONS'', push_bit 6 1),
     (''VIEW_AUDIT_LOG'', push_bit 7 1),
     (''PRIORITY_SPEAKER'', push_bit 8 1),
     (''STREAM'', push_bit 9 1),
     (''VIEW_CHANNEL'', push_bit 10 1),
     (''SEND_MESSAGES'', push_bit 11 1),
     (''SEND_TTS_MESSAGES'', push_bit 12 1),
     (''MANAGE_MESSAGES'', push_bit 13 1),
     (''EMBED_LINKS'', push_bit 14 1),
     (''ATTACH_FILES'', push_bit 15 1),
     (''READ_MESSAGE_HISTORY'', push_bit 16 1),
     (''MENTION_EVERYONE'', push_bit 17 1),
     (''USE_EXTERNAL_EMOJIS'', push_bit 18 1),
     (''VIEW_GUILD_INSIGHTS'', push_bit 19 1),
     (''CONNECT'', push_bit 20 1),
     (''SPEAK'', push_bit 21 1),
     (''MUTE_MEMBERS'', push_bit 22 1),
     (''DEAFEN_MEMBERS'', push_bit 23 1),
     (''MOVE_MEMBERS'', push_bit 24 1),
     (''USE_VAD'', push_bit 25 1),
     (''CHANGE_NICKNAME'', push_bit 26 1),
     (''MANAGE_NICKNAMES'', push_bit 27 1),
     (''MANAGE_ROLES'', push_bit 28 1),
     (''MANAGE_WEBHOOKS'', push_bit 29 1),
     (''MANAGE_GUILD_EXPRESSIONS'', push_bit 30 1),
     (''USE_APPLICATION_COMMANDS'', push_bit 31 1),
     (''REQUEST_TO_SPEAK'', push_bit 32 1),
     (''MANAGE_EVENTS'', push_bit 33 1),
     (''MANAGE_THREADS'', push_bit 34 1),
     (''CREATE_PUBLIC_THREADS'', push_bit 35 1),
     (''CREATE_PRIVATE_THREADS'', push_bit 36 1),
     (''USE_EXTERNAL_STICKERS'', push_bit 37 1),
     (''SEND_MESSAGES_IN_THREADS'', push_bit 38 1),
     (''USE_EMBEDDED_ACTIVITIES'', push_bit 39 1),
     (''MODERATE_MEMBERS'', push_bit 40 1),
     (''VIEW_CREATOR_MONETIZATION_ANALYTICS'', push_bit 41 1),
     (''USE_SOUNDBOARD'', push_bit 42 1),
     (''CREATE_GUILD_EXPRESSIONS'', push_bit 43 1),
     (''CREATE_EVENTS'', push_bit 44 1),
     (''USE_EXTERNAL_SOUNDS'', push_bit 45 1),
     (''SEND_VOICE_MESSAGES'', push_bit 46 1),
     (''SEND_POLLS'', push_bit 49 1),
     (''USE_EXTERNAL_APPS'', push_bit 50 1)]"

text \<open>A value of the TypeScript type \<open>string | bigint\<close>.\<close>

datatype string_or_bigint = Str string | Big int

text \<open>
  \<open>permissions.reduce((acc, perm) => acc | perm, 0n).toString()\<close>: a left fold of
  \<open>OR\<close> from \<open>0\<close>, returned as decimal text.
\<close>

definition calculatePermissions :: "int list \<Rightarrow> string" where
  "calculatePermissions permissions = bigint_toString (foldl (\<lambda>acc perm. acc OR perm) 0 permissions)"

text \<open>The first line of \<open>hasPermission\<close> and of \<open>getPermissionFlags\<close>.\<close>

definition to_bigint :: "string_or_bigint \<Rightarrow> error + int" where
  "to_bigint permissions = (case permissions of Str s \<Rightarrow> BigInt s | Big n \<Rightarrow> Inr n)"

definition hasPermission :: "string_or_bigint \<Rightarrow> int \<Rightarrow> error + bool" where
  "hasPermission permissions flag =
     (case to_bigint permissions of
        Inl e \<Rightarrow> Inl e
      | Inr perms \<Rightarrow> Inr ((perms AND flag) = flag))"

text \<open>
  The loop over \<open>Object.entries(PermissionFlags)\<close> visits the table in declaration order
  and appends the name of each entry that passes the test. Every value of the table is a
  bigint, so the \<open>typeof value === 'bigint'\<close> conjunct is true at every entry.
\<close>

definition getPermissionFlags :: "string_or_bigint \<Rightarrow> error + string list" where
  "getPermissionFlags permissions =
     (case to_bigint permissions of
        Inl e \<Rightarrow> Inl e
      | Inr perms \<Rightarrow>
          Inr (map fst (filter (\<lambda>(name, v). (perms AND v) = v) PermissionFlags)))"

section \<open>Platform functions used by the client\<close>

text \<open>
  The client relies on a few functions of the JavaScript platform. They are written out
  here for byte strings, so that every request the client builds can be computed.
\<close>

subsection \<open>Truthiness and property access\<close>

fun js_truthy :: "json \<Rightarrow> bool" where
  "js_truthy JNull = False"
| "js_truthy (JBool b) = b"
| "js_truthy (JNum n) = (integer_value n \<noteq> 0)"
| "js_truthy (JStr s) = (s \<noteq> [])"
| "js_truthy (JArr xs) = True"
| "js_truthy (JObj kvs) = True"

text \<open>
  \<open>value.key\<close> for the keys the code reads (\<open>message\<close>, \<open>code\<close>, \<open>errors\<close>):
  an own property of an object, \<open>undefined\<close> (\<open>None\<close>) on every other value.
\<close>

fun js_get :: "json \<Rightarrow> string \<Rightarrow> json option" where
  "js_get (JObj kvs) key = map_of kvs key"
| "js_get v key = None"

text \<open>
  \<open>String(value)\<close> on the primitive values that reach a query string.
\<close>

datatype js_primitive = VString string | VNumber safe_integer | VBoolean bool

fun js_String :: "js_primitive \<Rightarrow> string" where
  "js_String (VString s) = s"
| "js_String (VNumber n) = Number_toString n"
| "js_String (VBoolean b) = (if b then ''true'' else ''false'')"

text \<open>\<open>Array.prototype.join\<close> and \<open>String.prototype.includes\<close>.\<close>

fun join :: "string \<Rightarrow> string list \<Rightarrow> string" where
  "join sep [] = []"
| "join sep [x] = x"
| "join sep (x # y # ys) = x @ sep @ join sep (y # ys)"

fun String_includes :: "string \<Rightarrow> string \<Rightarrow> bool" where
  "String_includes [] sub = (sub = [])"
| "String_includes (c # cs) sub = (take (length sub) (c # cs) = sub \<or> String_includes cs sub)"

text \<open>
  The conversion of a value to text, ECMAScript's ToString, as the constructor of
  \<open>Error\<close> applies it to its message. A primitive value has its usual text. An array
  is converted by \<open>Array.prototype.join\<close>: the texts of its elements separated by
  commas, with the empty text for \<open>null\<close>. An object is converted by the
  \<open>toString\<close> it finds: the inherited one gives \<open>[object Object]\<close>; an own
  property of that name, which in a parsed value is never a function, hides it, is
  skipped as not callable, and since \<open>valueOf\<close> does not yield a primitive either the
  conversion throws a TypeError.
\<close>

fun js_ToString :: "json \<Rightarrow> error + string"
  and elements_text :: "json list \<Rightarrow> error + string list" where
  "js_ToString JNull = Inr ''null''"
| "js_ToString (JBool b) = Inr (if b then ''true'' else ''false'')"
| "js_ToString (JNum n) = Inr (Number_toString n)"
| "js_ToString (JStr s) = Inr s"
| "js_ToString (JArr xs) =
     (case elements_text xs of Inl e \<Rightarrow> Inl e | Inr ts \<Rightarrow> Inr (join '','' ts))"
| "js_ToString (JObj kvs) =
     (case map_of kvs ''toString'' of
        None \<Rightarrow> Inr ''[object Object]''
      | Some m \<Rightarrow> Inl TypeError)"
| "elements_text [] = Inr []"
| "elements_text (x # xs) =
     (case (if x = JNull then Inr [] else js_ToString x) of
        Inl e \<Rightarrow> Inl e
      | Inr t \<Rightarrow> (case elements_text xs of Inl e \<Rightarrow> Inl e | Inr ts \<Rightarrow> Inr (t # ts)))"

subsection \<open>Objects as ordered property lists\<close>

text \<open>
  Assigning a property keeps the position of an existing key and appends a new one;
  \<open>{...a, ...b}\<close> assigns the properties of \<open>b\<close> in order. Keys that are array
  indices, which JavaScript lists first, do not occur among the names used here.
\<close>

fun object_set :: "string \<Rightarrow> 'v \<Rightarrow> (string \<times> 'v) list \<Rightarrow> (string \<times> 'v) list" where
  "object_set key v [] = [(key, v)]"
| "object_set key v ((k, w) # ps) = (if k = key then (key, v) # ps else (k, w) # object_set key v ps)"

definition object_spread :: "(string \<times> 'v) list \<Rightarrow> (string \<times> 'v) list \<Rightarrow> (string \<times> 'v) list" where
  "object_spread base extra = foldl (\<lambda>obj (key, v). object_set key v obj) base extra"

subsection \<open>\<open>URLSearchParams\<close> and \<open>URL\<close>\<close>

text \<open>
  \<open>URLSearchParams.set\<close> overwrites the first pair of that name and drops the others, or
  appends. \<open>toString\<close> is the application/x-www-form-urlencoded serialiser: letters,
  digits and \<open>*-._\<close> stay, a space becomes \<open>+\<close>, every other byte becomes \<open>%XX\<close>.
\<close>

fun searchParams_set :: "string \<Rightarrow> string \<Rightarrow> (string \<times> string) list \<Rightarrow> (string \<times> string) list" where
  "searchParams_set key v [] = [(key, v)]"
| "searchParams_set key v ((k, w) # ps) =
     (if k = key then (key, v) # filter (\<lambda>(k', w'). k' \<noteq> key) ps
      else (k, w) # searchParams_set key v ps)"

definition hex_upper :: "nat \<Rightarrow> char" where
  "hex_upper d = (if d < 10 then char_of (48 + d) else char_of (55 + d))"

definition urlencode_byte :: "char \<Rightarrow> string" where
  "urlencode_byte c =
     (let k = (of_char c :: nat) in
      if k = 32 then ''+''
      else if (48 \<le> k \<and> k \<le> 57) \<or> (65 \<le> k \<and> k \<le> 90) \<or> (97 \<le> k \<and> k \<le> 122)
              \<or> k = 42 \<or> k = 45 \<or> k = 46 \<or> k = 95 then [c]
      else [CHR ''%'', hex_upper (k div 16), hex_upper (k mod 16)])"

definition urlencode :: "string \<Rightarrow> string" where
  "urlencode s = concat (map urlencode_byte s)"

definition searchParams_toString :: "(string \<times> string) list \<Rightarrow> string" where
  "searchParams_toString ps = join ''&'' (map (\<lambda>(k, v). urlencode k @ ''='' @ urlencode v) ps)"

text \<open>
  \<open>url.toString()\<close> for a URL made from \<open>baseUrl\<close> whose search parameters have been
  set to \<open>ps\<close>. The base is an absolute URL in normal form with no query and no
  fragment, as the one base the client passes is, so that parsing leaves it unchanged.
\<close>

definition URL_toString :: "string \<Rightarrow> (string \<times> string) list \<Rightarrow> string" where
  "URL_toString baseUrl ps = (if ps = [] then baseUrl else baseUrl @ ''?'' @ searchParams_toString ps)"

subsection \<open>Base64 and \<open>JSON.stringify\<close>\<close>

definition base64_char :: "nat \<Rightarrow> char" where
  "base64_char i =
     (if i < 26 then char_of (65 + i)
      else if i < 52 then char_of (71 + i)
      else if i < 62 then char_of (i - 4)
      else if i = 62 then CHR ''+'' else CHR ''/'')"

fun base64 :: "nat list \<Rightarrow> string" where
  "base64 [] = []"
| "base64 [a] = [base64_char (a div 4), base64_char ((a mod 4) * 16), CHR ''='', CHR ''='']"
| "base64 [a, b] =
     [base64_char (a div 4), base64_char ((a mod 4) * 16 + b div 16),
      base64_char ((b mod 16) * 4), CHR ''='']"
| "base64 (a # b # c # rest) =
     [base64_char (a div 4), base64_char ((a mod 4) * 16 + b div 16),
      base64_char ((b mod 16) * 4 + c div 64), base64_char (c mod 64)] @ base64 rest"

definition hex_lower :: "nat \<Rightarrow> char" where
  "hex_lower d = (if d < 10 then char_of (48 + d) else char_of (87 + d))"

text \<open>
  The quoting of \<open>JSON.stringify\<close>: the double quote (byte 34) and the backslash
  (byte 92) are escaped, control bytes get their short escape or the six-character
  escape with lower-case hex digits.
\<close>

definition json_escape_byte :: "char \<Rightarrow> string" where
  "json_escape_byte c =
     (let k = (of_char c :: nat) in
      if k = 34 then [char_of (92::nat), char_of (34::nat)]
      else if k = 92 then [char_of (92::nat), char_of (92::nat)]
      else if k = 8 then [char_of (92::nat), CHR ''b'']
      else if k = 9 then [char_of (92::nat), CHR ''t'']
      else if k = 10 then [char_of (92::nat), CHR ''n'']
      else if k = 12 then [char_of (92::nat), CHR ''f'']
      else if k = 13 then [char_of (92::nat), CHR ''r'']
      else if k < 32 then [char_of (92::nat), CHR ''u'', CHR ''0'', CHR ''0'', hex_lower (k div 16), hex_lower (k mod 16)]
      else [c])"

definition json_quote :: "string \<Rightarrow> string" where
  "json_quote s = [char_of (34::nat)] @ concat (map json_escape_byte s) @ [char_of (34::nat)]"

fun JSON_stringify :: "json \<Rightarrow> string" where
  "JSON_stringify JNull = ''null''"
| "JSON_stringify (JBool b) = (if b then ''true'' else ''false'')"
| "JSON_stringify (JNum n) = Number_toString n"
| "JSON_stringify (JStr s) = json_quote s"
| "JSON_stringify (JArr xs) = ''['' @ join '','' (map JSON_stringify xs) @ '']''"
| "JSON_stringify (JObj kvs) =
     ''{'' @ join '','' (map (\<lambda>kv. json_quote (fst kv) @ '':'' @ JSON_stringify (snd kv)) kvs) @ ''}''"

text \<open>
  An object literal whose property values may be \<open>undefined\<close> (\<open>None\<close>), as
  \<open>JSON.stringify\<close> sees it: properties with an undefined value are left out.
\<close>

definition defined_properties :: "(string \<times> json option) list \<Rightarrow> json" where
  "defined_properties props = JObj (concat (map (\<lambda>(k, v). case v of None \<Rightarrow> [] | Some x \<Rightarrow> [(k, x)]) props))"

section \<open>The HTTP client (src/utils/http.ts)\<close>

text \<open>
  The transport is \<open>fetch\<close>, a parameter of the model. A response carries what the code
  reads from it: the status and its text, the \<open>content-type\<close> header (\<open>None\<close> when
  absent), and the outcome of \<open>response.json()\<close> (\<open>None\<close> when the body is not JSON
  and the promise rejects). Every function that awaits the transport returns its result
  or error together with the list of the calls it made to \<open>fetch\<close>.
\<close>

datatype http_method = GET | POST | PUT

record RequestOptions =
  "method" :: http_method
  headers :: "(string \<times> string) list"
  body :: "string option"

record Response =
  status :: nat
  statusText :: string
  content_type :: "string option"
  json_body :: "json option"

type_synonym fetch = "string \<Rightarrow> RequestOptions \<Rightarrow> error + Response"

type_synonym 'a promise = "(error + 'a) \<times> (string \<times> RequestOptions) list"

text \<open>\<open>response.ok\<close>: the status is in the range 200 to 299.\<close>

definition ok :: "Response \<Rightarrow> bool" where
  "ok response = (200 \<le> status response \<and> status response \<le> 299)"

text \<open>\<open>contentType?.includes('application/json')\<close>\<close>

definition is_json_content :: "Response \<Rightarrow> bool" where
  "is_json_content response =
     (case content_type response of
        None \<Rightarrow> False
      | Some contentType \<Rightarrow> String_includes contentType ''application/json'')"

text \<open>
  The error data of a failed response: the parsed body when the content type announces
  JSON, parsing succeeds and the parsed value is truthy.
\<close>

definition errorData_of :: "Response \<Rightarrow> json option" where
  "errorData_of response =
     (if is_json_content response then
        (case json_body response of
           None \<Rightarrow> None
         | Some parsed \<Rightarrow> if js_truthy parsed then Some parsed else None)
      else None)"

text \<open>\<open>errorData?.message || response.statusText || 'Unknown error'\<close>\<close>

definition errorMessage_of :: "json option \<Rightarrow> string \<Rightarrow> json" where
  "errorMessage_of errorData text =
     (case Option.bind errorData (\<lambda>d. js_get d ''message'') of
        Some m \<Rightarrow> if js_truthy m then m else if text \<noteq> [] then JStr text else JStr ''Unknown error''
      | None \<Rightarrow> if text \<noteq> [] then JStr text else JStr ''Unknown error'')"

text \<open>
  \<open>new DiscordAPIRequestError(message, statusCode, errorData)\<close> of
  structures/errors.ts, as the operand of a \<open>throw\<close>. The constructor first calls
  \<open>super(message)\<close>, which converts the message to text as \<open>Error\<close> does and can
  throw; then it assigns \<open>statusCode\<close>, \<open>errorData?.code\<close> and
  \<open>errorData?.errors\<close>. The result is the error that is thrown: the new request
  error, or the TypeError of the conversion.
\<close>

definition DiscordAPIRequestError_new :: "json \<Rightarrow> nat \<Rightarrow> json option \<Rightarrow> error" where
  "DiscordAPIRequestError_new message statusCode errorData =
     (case js_ToString message of
        Inl e \<Rightarrow> e
      | Inr text \<Rightarrow>
          DiscordAPIRequestError text statusCode
            (Option.bind errorData (\<lambda>d. js_get d ''code''))
            (Option.bind errorData (\<lambda>d. js_get d ''errors'')))"

definition HttpClient_request :: "fetch \<Rightarrow> string \<Rightarrow> RequestOptions \<Rightarrow> json promise" where
  "HttpClient_request fetch url options =
     ((case fetch url options of
         Inl e \<Rightarrow> Inl e
       | Inr response \<Rightarrow>
           if \<not> ok response then
             (let errorData = errorData_of response;
                  errorMessage = errorMessage_of errorData (statusText response)
              in Inl (DiscordAPIRequestError_new errorMessage (status response) errorData))
           else if is_json_content response then
             (case json_body response of None \<Rightarrow> Inl SyntaxError | Some v \<Rightarrow> Inr v)
           else Inr (JObj [])),
      [(url, options)])"

definition user_agent :: string where
  "user_agent = ''discord-oauth2 (https://github.com/0neShot101/discord-oauth2)''"

definition HttpClient_get :: "fetch \<Rightarrow> string \<Rightarrow> (string \<times> string) list \<Rightarrow> json promise" where
  "HttpClient_get fetch url hdrs =
     HttpClient_request fetch url
       \<lparr>method = GET,
        headers = object_spread [(''User-Agent'', user_agent)] hdrs,
        body = None\<rparr>"

definition HttpClient_post :: "fetch \<Rightarrow> string \<Rightarrow> string \<Rightarrow> (string \<times> string) list \<Rightarrow> json promise" where
  "HttpClient_post fetch url content hdrs =
     HttpClient_request fetch url
       \<lparr>method = POST,
        headers = object_spread
          [(''User-Agent'', user_agent), (''Content-Type'', ''application/x-www-form-urlencoded'')] hdrs,
        body = Some content\<rparr>"

definition HttpClient_put :: "fetch \<Rightarrow> string \<Rightarrow> string \<Rightarrow> (string \<times> string) list \<Rightarrow> json promise" where
  "HttpClient_put fetch url content hdrs =
     HttpClient_request fetch url
       \<lparr>method = PUT,
        headers = object_spread
          [(''User-Agent'', user_agent), (''Content-Type'', ''application/json'')] hdrs,
        body = Some content\<rparr>"

section \<open>Helpers (utils/helpers.ts)\<close>

definition AUTHORIZE :: string where
  "AUTHORIZE = ''https://discord.com/oauth2/authorize''"

definition TOKEN :: string where
  "TOKEN = ''https://discord.com/api/oauth2/token''"

definition TOKEN_REVOKE :: string where
  "TOKEN_REVOKE = ''https://discord.com/api/oauth2/token/revoke''"

definition DEFAULT_API_ENDPOINT :: string where
  "DEFAULT_API_ENDPOINT = ''https://discord.com/api/v10''"

text \<open>
  The search parameters after the \<open>forEach\<close> of \<open>buildUrl\<close>: every property with a
  defined value is \<open>set\<close>, in the order of the object's properties.
\<close>

definition buildUrl_searchParams :: "(string \<times> js_primitive option) list \<Rightarrow> (string \<times> string) list" where
  "buildUrl_searchParams params =
     foldl (\<lambda>sp (key, v). case v of None \<Rightarrow> sp | Some x \<Rightarrow> searchParams_set key (js_String x) sp) [] params"

definition buildUrl :: "string \<Rightarrow> (string \<times> js_primitive option) list \<Rightarrow> string" where
  "buildUrl baseUrl params = URL_toString baseUrl (buildUrl_searchParams params)"

definition scopesToString :: "string list \<Rightarrow> string" where
  "scopesToString scopes = join '' '' scopes"

text \<open>A value of the TypeScript type \<open>number | string\<close>.\<close>

datatype number_or_string = Number safe_integer | Text string

definition normalizePermissions :: "number_or_string option \<Rightarrow> string option" where
  "normalizePermissions permissions =
     (case permissions of
        None \<Rightarrow> None
      | Some (Number n) \<Rightarrow> Some (js_String (VNumber n))
      | Some (Text s) \<Rightarrow> Some (js_String (VString s)))"

definition encodeBasicAuth :: "string \<Rightarrow> string \<Rightarrow> string" where
  "encodeBasicAuth clientId clientSecret =
     (let credentials = clientId @ '':'' @ clientSecret
      in ''Basic '' @ base64 (map of_char credentials))"

definition toFormUrlEncoded :: "(string \<times> string option) list \<Rightarrow> string" where
  "toFormUrlEncoded data =
     searchParams_toString
       (foldl (\<lambda>params (key, v). case v of None \<Rightarrow> params | Some x \<Rightarrow> searchParams_set key x params) [] data)"

section \<open>The OAuth2 client (structures/client.ts)\<close>

text \<open>
  The options of the constructor. The three required properties are typed \<open>string\<close>;
  \<open>None\<close> stands for a property that is missing at run time, which the constructor's
  test treats like the empty string.
\<close>

record OAuth2ClientOptions =
  opt_clientId :: "string option"
  opt_clientSecret :: "string option"
  opt_redirectUri :: "string option"
  opt_apiEndpoint :: "string option"
  opt_botToken :: "string option"

record OAuth2Client =
  clientId :: string
  clientSecret :: string
  redirectUri :: string
  apiEndpoint :: string
  botToken :: "string option"

text \<open>\<open>!s\<close> and \<open>s || d\<close> on an optional string.\<close>

definition falsy :: "string option \<Rightarrow> bool" where
  "falsy s = (case s of None \<Rightarrow> True | Some x \<Rightarrow> x = [])"

definition or_default :: "string option \<Rightarrow> string \<Rightarrow> string" where
  "or_default s d = (case s of None \<Rightarrow> d | Some x \<Rightarrow> if x = [] then d else x)"

text \<open>
  Past the guard the three required properties are non-empty strings, and the assignments
  copy them; \<open>or_default\<close> with the empty text reads the string out of the option.
\<close>

definition OAuth2Client_constructor :: "OAuth2ClientOptions \<Rightarrow> error + OAuth2Client" where
  "OAuth2Client_constructor options =
     (if falsy (opt_clientId options) \<or> falsy (opt_clientSecret options) \<or> falsy (opt_redirectUri options)
      then Inl (ValidationError ''clientId, clientSecret, and redirectUri are required'')
      else Inr \<lparr>clientId = or_default (opt_clientId options) [],
                clientSecret = or_default (opt_clientSecret options) [],
                redirectUri = or_default (opt_redirectUri options) [],
                apiEndpoint = or_default (opt_apiEndpoint options) DEFAULT_API_ENDPOINT,
                botToken = opt_botToken options\<rparr>)"

definition setBotToken :: "OAuth2Client \<Rightarrow> string \<Rightarrow> error + OAuth2Client" where
  "setBotToken this token =
     (if token = [] then Inl (ValidationError ''Bot token is required'')
      else Inr (this\<lparr>botToken := Some token\<rparr>))"

subsection \<open>Authorize URLs\<close>

record AuthorizationUrlOptions =
  auth_scopes :: "string list option"
  auth_state :: "string option"
  responseType :: "string option"
  prompt :: "string option"
  integrationType :: "safe_integer option"
  auth_guildId :: "string option"
  auth_disableGuildSelect :: "bool option"
  auth_permissions :: "number_or_string option"

definition generateAuthUrl :: "OAuth2Client \<Rightarrow> AuthorizationUrlOptions \<Rightarrow> error + string" where
  "generateAuthUrl this options =
     (case auth_scopes options of
        None \<Rightarrow> Inl (ValidationError ''At least one scope is required'')
      | Some scopes \<Rightarrow>
          if length scopes = 0 then Inl (ValidationError ''At least one scope is required'')
          else Inr (buildUrl AUTHORIZE
            [(''client_id'', Some (VString (clientId this))),
             (''redirect_uri'', Some (VString (redirectUri this))),
             (''response_type'', Some (VString (or_default (responseType options) ''code''))),
             (''scope'', Some (VString (scopesToString scopes))),
             (''state'', map_option VString (auth_state options)),
             (''prompt'', map_option VString (prompt options)),
             (''integration_type'', map_option VNumber (integrationType options)),
             (''guild_id'', map_option VString (auth_guildId options)),
             (''disable_guild_select'', map_option VBoolean (auth_disableGuildSelect options)),
             (''permissions'', map_option VString (normalizePermissions (auth_permissions options)))]))"

record BotAuthorizationUrlOptions =
  permissions :: "number_or_string option"
  guildId :: "string option"
  disableGuildSelect :: "bool option"
  scopes :: "string list option"
  state :: "string option"



subsection \<open>Token and resource requests\<close>

text \<open>
  The optional scope hint of \<open>exchangeCode\<close> and \<open>refreshToken\<close> only narrows the
  static type of the result and is left out.
\<close>

definition exchangeCode :: "fetch \<Rightarrow> OAuth2Client \<Rightarrow> string \<Rightarrow> json promise" where
  "exchangeCode fetch this code =
     (if code = [] then (Inl (ValidationError ''Authorization code is required''), [])
      else HttpClient_post fetch TOKEN
             (toFormUrlEncoded
                [(''grant_type'', Some ''authorization_code''),
                 (''code'', Some code),
                 (''redirect_uri'', Some (redirectUri this))])
             [(''Authorization'', encodeBasicAuth (clientId this) (clientSecret this))])"

definition refreshToken :: "fetch \<Rightarrow> OAuth2Client \<Rightarrow> string \<Rightarrow> json promise" where
  "refreshToken fetch this token =
     (if token = [] then (Inl (ValidationError ''Refresh token is required''), [])
      else HttpClient_post fetch TOKEN
             (toFormUrlEncoded
                [(''grant_type'', Some ''refresh_token''),
                 (''refresh_token'', Some token)])
             [(''Authorization'', encodeBasicAuth (clientId this) (clientSecret this))])"

text \<open>An awaited call whose result is dropped.\<close>

definition discard :: "json promise \<Rightarrow> unit promise" where
  "discard p = (case fst p of Inl e \<Rightarrow> Inl e | Inr v \<Rightarrow> Inr (), snd p)"

definition revokeToken :: "fetch \<Rightarrow> OAuth2Client \<Rightarrow> string \<Rightarrow> string option \<Rightarrow> unit promise" where
  "revokeToken fetch this token tokenTypeHint =
     (if token = [] then (Inl (ValidationError ''Token is required''), [])
      else discard (HttpClient_post fetch TOKEN_REVOKE
             (toFormUrlEncoded
                [(''token'', Some token),
                 (''token_type_hint'', tokenTypeHint)])
             [(''Authorization'', encodeBasicAuth (clientId this) (clientSecret this))]))"

record AddGuildMemberOptions =
  nick :: "string option"
  roles :: "string list option"
  mute :: "bool option"
  deaf :: "bool option"

definition addUserToGuild ::
    "fetch \<Rightarrow> OAuth2Client \<Rightarrow> string \<Rightarrow> string \<Rightarrow> string \<Rightarrow> AddGuildMemberOptions \<Rightarrow> unit promise" where
  "addUserToGuild fetch this guild user userAccessToken options =
     (if falsy (botToken this) then
        (Inl (ValidationError ''Bot token is required to add members to a guild''), [])
      else if guild = [] then (Inl (ValidationError ''Guild ID is required''), [])
      else if user = [] then (Inl (ValidationError ''User ID is required''), [])
      else if userAccessToken = [] then (Inl (ValidationError ''User access token is required''), [])
      else
        (let payload = JSON_stringify (defined_properties
               [(''access_token'', Some (JStr userAccessToken)),
                (''nick'', map_option JStr (nick options)),
                (''roles'', map_option (\<lambda>rs. JArr (map JStr rs)) (roles options)),
                (''mute'', map_option JBool (mute options)),
                (''deaf'', map_option JBool (deaf options))]);
             hdrs = [(''Authorization'', ''Bot '' @ or_default (botToken this) [])]
         in discard (HttpClient_put fetch
              (apiEndpoint this @ ''/guilds/'' @ guild @ ''/members/'' @ user) payload hdrs)))"

definition getCurrentAuthorizationInfo :: "fetch \<Rightarrow> OAuth2Client \<Rightarrow> string \<Rightarrow> json promise" where
  "getCurrentAuthorizationInfo fetch this accessToken =
     (if accessToken = [] then (Inl (ValidationError ''Access token is required''), [])
      else HttpClient_get fetch (apiEndpoint this @ ''/oauth2/@me'')
             [(''Authorization'', ''Bearer '' @ accessToken)])"

definition getUser :: "fetch \<Rightarrow> OAuth2Client \<Rightarrow> string \<Rightarrow> json promise" where
  "getUser fetch this accessToken =
     (if accessToken = [] then (Inl (ValidationError ''Access token is required''), [])
      else HttpClient_get fetch (apiEndpoint this @ ''/users/@me'')
             [(''Authorization'', ''Bearer '' @ accessToken)])"

definition getUserGuilds :: "fetch \<Rightarrow> OAuth2Client \<Rightarrow> string \<Rightarrow> json promise" where
  "getUserGuilds fetch this accessToken =
     (if accessToken = [] then (Inl (ValidationError ''Access token is required''), [])
      else HttpClient_get fetch (apiEndpoint this @ ''/users/@me/guilds'')
             [(''Authorization'', ''Bearer '' @ accessToken)])"

definition getUserConnections :: "fetch \<Rightarrow> OAuth2Client \<Rightarrow> string \<Rightarrow> json promise" where
  "getUserConnections fetch this accessToken =
     (if accessToken = [] then (Inl (ValidationError ''Access token is required''), [])
      else HttpClient_get fetch (apiEndpoint this @ ''/users/@me/connections'')
             [(''Authorization'', ''Bearer '' @ accessToken)])"

section \<open>Notions used to state the properties\<close>

text \<open>
  The class of a thrown error, as \<open>instanceof\<close> decides it for the classes that
  matter below, and what it means that a call raises an error of a class.
\<close>

fun is_ConfigurationError :: "error \<Rightarrow> bool" where
  "is_ConfigurationError (ConfigurationError m) = True"
| "is_ConfigurationError e = False"

fun is_ValidationError :: "error \<Rightarrow> bool" where
  "is_ValidationError (ValidationError m) = True"
| "is_ValidationError e = False"


definition raises :: "(error \<Rightarrow> bool) \<Rightarrow> error + 'a \<Rightarrow> bool" where
  "raises P r = (case r of Inl e \<Rightarrow> P e | Inr v \<Rightarrow> False)"

text \<open>
  What the specification says about the message of a request error, in its own words:
  the message field of the parsed JSON error body, else the status text, else a generic
  text. \<open>body_field\<close> reads a field of the error body when the response announces JSON
  and the body parses to an object.
\<close>

definition body_field :: "Response \<Rightarrow> string \<Rightarrow> json option" where
  "body_field response key =
     (if is_json_content response then
        (case json_body response of
           Some (JObj kvs) \<Rightarrow> map_of kvs key
         | _ \<Rightarrow> None)
      else None)"

definition status_fallback :: "Response \<Rightarrow> string" where
  "status_fallback response =
     (if statusText response \<noteq> [] then statusText response else ''Unknown error'')"

definition expected_message :: "Response \<Rightarrow> json" where
  "expected_message response =
     (case body_field response ''message'' of
        Some m \<Rightarrow> if js_truthy m then m else JStr (status_fallback response)
      | None \<Rightarrow> JStr (status_fallback response))"

text \<open>
  The values that have no text: an object with an own property \<open>toString\<close>, and an
  array with such a value among its elements.
\<close>

fun toString_trap :: "json \<Rightarrow> bool"
  and any_toString_trap :: "json list \<Rightarrow> bool" where
  "toString_trap (JObj kvs) = (map_of kvs ''toString'' \<noteq> None)"
| "toString_trap (JArr xs) = any_toString_trap xs"
| "toString_trap v = False"
| "any_toString_trap [] = False"
| "any_toString_trap (x # xs) = (toString_trap x \<or> any_toString_trap xs)"


definition is_decimal_digit :: "char \<Rightarrow> bool" where
  "is_decimal_digit c = (48 \<le> (of_char c :: nat) \<and> (of_char c :: nat) \<le> 57)"

text \<open>Sample data for the concrete instances below.\<close>

definition sample_client :: OAuth2Client where
  "sample_client =
     \<lparr>clientId = ''123'', clientSecret = ''secret'', redirectUri = ''https://app.example/cb'',
      apiEndpoint = DEFAULT_API_ENDPOINT, botToken = Some ''tok''\<rparr>"

definition invalid_grant_response :: Response where
  "invalid_grant_response =
     \<lparr>status = 400, statusText = ''Bad Request'', content_type = Some ''application/json'',
      json_body = Some (JObj [(''message'', JStr ''invalid_grant''),
                              (''code'', JNum (safe_integer_of 5))])\<rparr>"





definition no_content_fetch :: fetch where
  "no_content_fetch url options =
     Inr \<lparr>status = 204, statusText = ''No Content'', content_type = None, json_body = None\<rparr>"



section \<open>Properties of the permission helpers\<close>

subsection \<open>Decimal text round trip\<close>

lemma nat_digits_small: "n < 10 \<Longrightarrow> nat_digits n = [digit_char n]"
  by (subst nat_digits.simps) simp

lemma nat_digits_large:
  "\<not> n < 10 \<Longrightarrow> nat_digits n = nat_digits (n div 10) @ [digit_char (n mod 10)]"
  by (subst nat_digits.simps) simp

lemma of_char_digit_char: "d < 10 \<Longrightarrow> (of_char (digit_char d) :: nat) = 48 + d"
  by (simp add: digit_char_def)

lemma digit_value_digit_char: "d < 10 \<Longrightarrow> digit_value 10 (digit_char d) = Some d"
  by (simp add: digit_value_def of_char_digit_char Let_def)

lemma parse_digits_from_snoc:
  "parse_digits_from r acc (cs @ [c]) =
     (case parse_digits_from r acc cs of
        None \<Rightarrow> None
      | Some v \<Rightarrow> (case digit_value r c of None \<Rightarrow> None | Some d \<Rightarrow> Some (v * r + d)))"
  by (induction cs arbitrary: acc) (auto split: option.splits)

lemma parse_nat_digits: "parse_digits_from 10 0 (nat_digits n) = Some n"
proof (induction n rule: nat_digits.induct)
  case (1 n)
  show ?case
  proof (cases "n < 10")
    case True
    then show ?thesis by (simp add: nat_digits_small digit_value_digit_char)
  next
    case False
    have "n mod 10 < 10" by simp
    with False 1 show ?thesis
      by (simp add: nat_digits_large parse_digits_from_snoc digit_value_digit_char)
  qed
qed

lemma is_decimal_digit_char: "d < 10 \<Longrightarrow> is_decimal_digit (digit_char d)"
  by (simp add: is_decimal_digit_def of_char_digit_char)

lemma nat_digits_all_digits: "c \<in> set (nat_digits n) \<Longrightarrow> is_decimal_digit c"
proof (induction n rule: nat_digits.induct)
  case (1 n)
  show ?case
  proof (cases "n < 10")
    case True
    with 1(2) show ?thesis by (simp add: nat_digits_small is_decimal_digit_char)
  next
    case False
    have m: "n mod 10 < 10" by simp
    from False 1(2) have "c \<in> set (nat_digits (n div 10)) \<or> c = digit_char (n mod 10)"
      by (auto simp add: nat_digits_large)
    with 1(1) False m show ?thesis
      using is_decimal_digit_char by blast
  qed
qed

lemma nat_digits_nonempty: "nat_digits n \<noteq> []"
  by (cases "n < 10") (simp_all add: nat_digits_small nat_digits_large)

lemma decimal_digit_not_white: "is_decimal_digit c \<Longrightarrow> \<not> is_white_space c"
  by (auto simp: is_decimal_digit_def is_white_space_def)

lemma decimal_digit_not_sign: "is_decimal_digit c \<Longrightarrow> c \<noteq> CHR ''+'' \<and> c \<noteq> CHR ''-''"
  by (auto simp: is_decimal_digit_def)

lemma decimal_digit_no_radix: "is_decimal_digit c \<Longrightarrow> radix_of_prefix c = None"
  by (auto simp: is_decimal_digit_def radix_of_prefix_def)

lemma trim_id:
  assumes "s \<noteq> []" and "\<not> is_white_space (hd s)" and "\<not> is_white_space (last s)"
  shows "trim s = s"
proof -
  from assms have leading: "dropWhile is_white_space s = s"
    by (cases s) simp_all
  from assms have trailing: "dropWhile is_white_space (rev s) = rev s"
    by (cases "rev s") (simp_all add: hd_rev)
  show ?thesis by (simp add: trim_def leading trailing)
qed

lemma trim_nat_digits: "trim (nat_digits n) = nat_digits n"
proof (rule trim_id)
  show ne: "nat_digits n \<noteq> []" by (rule nat_digits_nonempty)
  from ne have "hd (nat_digits n) \<in> set (nat_digits n)" by simp
  then show "\<not> is_white_space (hd (nat_digits n))"
    by (blast intro: decimal_digit_not_white [THEN notE] nat_digits_all_digits)
  from ne have "last (nat_digits n) \<in> set (nat_digits n)" by simp
  then show "\<not> is_white_space (last (nat_digits n))"
    by (blast intro: decimal_digit_not_white [THEN notE] nat_digits_all_digits)
qed

lemma StringToBigInt_nat_digits: "StringToBigInt (nat_digits n) = Some (int n)"
proof -
  obtain c cs where cs: "nat_digits n = c # cs"
    using nat_digits_nonempty by (cases "nat_digits n") auto
  have c: "is_decimal_digit c"
    using nat_digits_all_digits [of c n] cs by simp
  have r: "(case cs of [] \<Rightarrow> None | x # _ \<Rightarrow> radix_of_prefix x) = None"
  proof (cases cs)
    case Nil
    then show ?thesis by simp
  next
    case (Cons x xs)
    with cs have "is_decimal_digit x"
      using nat_digits_all_digits [of x n] by simp
    with Cons show ?thesis by (simp add: decimal_digit_no_radix)
  qed
  have p: "parse_digits 10 (c # cs) = Some n"
    using parse_nat_digits [of n] cs by (simp add: parse_digits_def)
  have "trim (nat_digits n) = c # cs"
    using trim_nat_digits [of n] cs by simp
  then show ?thesis
    using decimal_digit_not_sign [OF c] r p by (auto simp add: StringToBigInt_def)
qed

lemma StringToBigInt_minus_nat_digits:
  "StringToBigInt (CHR ''-'' # nat_digits n) = Some (- int n)"
proof -
  have "\<not> is_white_space (last (CHR ''-'' # nat_digits n))"
    using nat_digits_nonempty [of n] nat_digits_all_digits [of "last (nat_digits n)" n]
    by (simp add: decimal_digit_not_white)
  moreover have "\<not> is_white_space (CHR ''-'')"
    by (simp add: is_white_space_def)
  ultimately have "trim (CHR ''-'' # nat_digits n) = CHR ''-'' # nat_digits n"
    by (intro trim_id) simp_all
  then show ?thesis
    using parse_nat_digits [of n] nat_digits_nonempty [of n]
    by (simp add: StringToBigInt_def parse_digits_def)
qed

lemma BigInt_toString: "BigInt (bigint_toString n) = Inr n"
  by (simp add: BigInt_def bigint_toString_def StringToBigInt_nat_digits
      StringToBigInt_minus_nat_digits)

subsection \<open>Bits of a combined value\<close>

lemma bit_foldl_or:
  "bit (foldl (\<lambda>acc perm. acc OR perm) a xs) k \<longleftrightarrow> bit a k \<or> (\<exists>x\<in>set xs. bit x k)"
  for a :: int
  by (induction xs arbitrary: a) (auto simp: bit_or_iff)

lemma bit_single_flag: "bit (push_bit j (1::int)) k \<longleftrightarrow> j = k"
  by (auto simp: bit_exp_iff)

lemma and_single_flag: "(p AND push_bit k 1) = push_bit k (1::int) \<longleftrightarrow> bit p k"
proof
  assume "(p AND push_bit k 1) = push_bit k (1::int)"
  then have "bit (p AND push_bit k 1) k = bit (push_bit k (1::int)) k"
    by simp
  then show "bit p k"
    by (simp add: bit_and_iff bit_exp_iff)
next
  assume "bit p k"
  then show "(p AND push_bit k 1) = push_bit k (1::int)"
    by (intro bit_eqI) (auto simp: bit_and_iff bit_exp_iff)
qed

lemma and_eq_iff_bits: "(s AND f) = f \<longleftrightarrow> (\<forall>n. bit f n \<longrightarrow> bit s n)"
  for s f :: int
  by (auto simp: bit_eq_iff bit_and_iff)

lemma PermissionFlags_single_bit:
  "(name, v) \<in> set PermissionFlags \<Longrightarrow> \<exists>k. v = push_bit k 1"
  unfolding PermissionFlags_def
  apply (auto simp del: push_bit_of_1)
   apply (rule exI [of _ 0], simp)
  apply (rule exI [of _ 1], simp)
  done

lemma flag_in_combined:
  assumes S: "set S \<subseteq> snd ` set PermissionFlags"
    and v: "(name, v) \<in> set PermissionFlags"
  shows "(foldl (\<lambda>acc perm. acc OR perm) 0 S AND v) = v \<longleftrightarrow> v \<in> set S"
proof -
  from v obtain k where k: "v = push_bit k 1"
    using PermissionFlags_single_bit by blast
  have "(\<exists>x\<in>set S. bit x k) \<longleftrightarrow> v \<in> set S"
  proof
    assume "\<exists>x\<in>set S. bit x k"
    then obtain x where x: "x \<in> set S" "bit x k" by blast
    with S obtain n where "(n, x) \<in> set PermissionFlags" by auto
    then obtain j where "x = push_bit j 1"
      using PermissionFlags_single_bit by blast
    with x k show "v \<in> set S" by (simp only: bit_single_flag)
  next
    assume "v \<in> set S"
    with k show "\<exists>x\<in>set S. bit x k"
      using bit_single_flag [of k k] by blast
  qed
  then show ?thesis
    by (simp only: k and_single_flag bit_foldl_or) simp
qed

subsection \<open>Claims about the permission helpers\<close>

text \<open>
  Claim C1. For every list \<open>S\<close> of defined permission flags (in any order, with or
  without repetitions, the empty list and the whole table included),
  \<open>getPermissionFlags(calculatePermissions(S))\<close> returns exactly the names of the flags
  that occur in \<open>S\<close>, in the order in which the table declares them.
\<close>

theorem decompose_combine:
  assumes "set S \<subseteq> snd ` set PermissionFlags"
  shows "getPermissionFlags (Str (calculatePermissions S)) =
           Inr (map fst (filter (\<lambda>(name, v). v \<in> set S) PermissionFlags))"
proof -
  have "filter (\<lambda>(name, v). (foldl (\<lambda>acc perm. acc OR perm) 0 S AND v) = v) PermissionFlags =
        filter (\<lambda>(name, v). v \<in> set S) PermissionFlags"
    by (rule filter_cong) (auto simp: flag_in_combined [OF assms])
  then show ?thesis
    by (simp add: getPermissionFlags_def to_bigint_def calculatePermissions_def BigInt_toString)
qed

theorem decompose_combine_witness:
  "set [push_bit 50 1, push_bit 3 1, push_bit 50 1] \<subseteq> snd ` set PermissionFlags
   \<and> getPermissionFlags (Str (calculatePermissions [push_bit 50 1, push_bit 3 1, push_bit 50 1])) =
       Inr [''ADMINISTRATOR'', ''USE_EXTERNAL_APPS'']
   \<and> getPermissionFlags (Str (calculatePermissions [])) = Inr []
   \<and> getPermissionFlags (Str (calculatePermissions (map snd PermissionFlags))) =
       Inr (map fst PermissionFlags)"
proof -
  have h: "set [push_bit 50 1, push_bit 3 1, push_bit 50 1] \<subseteq> snd ` set PermissionFlags"
    by (simp add: PermissionFlags_def)
  have some: "getPermissionFlags (Str (calculatePermissions [push_bit 50 1, push_bit 3 1, push_bit 50 1])) =
       Inr [''ADMINISTRATOR'', ''USE_EXTERNAL_APPS'']"
    using decompose_combine [OF h] by (simp add: PermissionFlags_def)
  have none: "getPermissionFlags (Str (calculatePermissions [])) = Inr []"
    using decompose_combine [of "[]"] by simp
  have "filter (\<lambda>(name, v). v \<in> set (map snd PermissionFlags)) PermissionFlags = PermissionFlags"
    by (rule filter_True) force
  then have all: "getPermissionFlags (Str (calculatePermissions (map snd PermissionFlags))) =
       Inr (map fst PermissionFlags)"
    using decompose_combine [of "map snd PermissionFlags"] by simp
  from h some none all show ?thesis by blast
qed

text \<open>
  Claim C3. For every permission set and every flag argument, single-bit or combined,
  \<open>hasPermission(set, flag)\<close> returns true exactly when \<open>(set AND flag) = flag\<close>, which
  holds exactly when every bit of \<open>flag\<close> is a bit of \<open>set\<close>. The set may be given as a
  bigint or as any text that \<open>BigInt\<close> reads as that value.
\<close>

theorem hasPermission_and_equality:
  "hasPermission (Big s) flag = Inr ((s AND flag) = flag)
   \<and> (BigInt str = Inr s \<longrightarrow> hasPermission (Str str) flag = Inr ((s AND flag) = flag))
   \<and> (((s AND flag) = flag) \<longleftrightarrow> (\<forall>n. bit flag n \<longrightarrow> bit s n))"
  by (simp add: hasPermission_def to_bigint_def and_eq_iff_bits)

theorem hasPermission_and_equality_witness:
  "BigInt ''6'' = Inr 6
   \<and> hasPermission (Big 6) 2 = Inr True
   \<and> hasPermission (Str ''6'') 2 = Inr True
   \<and> hasPermission (Big 6) 3 = Inr False"
proof -
  have h: "BigInt ''6'' = Inr 6"
    by code_simp
  show ?thesis
    using h hasPermission_and_equality [of 6 2 "''6''"] hasPermission_and_equality [of 6 3 "''6''"]
    by simp
qed

text \<open>
  Claim C8 as stated does not hold: \<open>calculatePermissions([F])\<close> is not \<open>F\<close> but a
  string, and no integer form of the result is returned. At the flag
  \<open>ADMINISTRATOR\<close> the result is the text \<open>8\<close>, a value different from the bigint
  \<open>8\<close>.
\<close>

theorem calculatePermissions_single_counterexample:
  "Str (calculatePermissions [push_bit 3 1]) = Str ''8''
   \<and> Str (calculatePermissions [push_bit 3 1]) \<noteq> Big (push_bit 3 1)"
  by code_simp

text \<open>
  Claim C8, amended. For every defined permission flag \<open>F\<close>,
  \<open>calculatePermissions([F])\<close> is the decimal text of \<open>F\<close>, and reading that text back
  with \<open>BigInt\<close> gives exactly \<open>F\<close>. The result is returned in decimal-string form
  only.
\<close>

theorem calculatePermissions_single:
  assumes "(name, F) \<in> set PermissionFlags"
  shows "calculatePermissions [F] = bigint_toString F
         \<and> to_bigint (Str (calculatePermissions [F])) = Inr F"
  by (simp add: calculatePermissions_def to_bigint_def BigInt_toString)

theorem calculatePermissions_single_witness:
  "(''USE_EXTERNAL_APPS'', push_bit 50 1) \<in> set PermissionFlags
   \<and> calculatePermissions [push_bit 50 1] = bigint_toString (push_bit 50 1)
   \<and> to_bigint (Str (calculatePermissions [push_bit 50 1])) = Inr (push_bit 50 1)"
proof -
  have h: "(''USE_EXTERNAL_APPS'', push_bit 50 1) \<in> set PermissionFlags"
    by (simp add: PermissionFlags_def)
  show ?thesis
    using h calculatePermissions_single [OF h] by blast
qed

text \<open>
  Claim C9. For every permission set \<open>x\<close>, given as a bigint or as its decimal text,
  \<open>hasPermission(x, 0)\<close> returns true.
\<close>

theorem hasPermission_zero:
  "hasPermission (Big x) 0 = Inr True \<and> hasPermission (Str (bigint_toString x)) 0 = Inr True"
  by (simp add: hasPermission_def to_bigint_def BigInt_toString)

theorem hasPermission_zero_witness:
  "hasPermission (Big 0) 0 = Inr True \<and> hasPermission (Str (bigint_toString 0)) 0 = Inr True
   \<and> hasPermission (Big (push_bit 50 1 + 5)) 0 = Inr True"
  using hasPermission_zero [of 0] hasPermission_zero [of "push_bit 50 1 + 5"] by simp

text \<open>
  Claim C10. For every permission set \<open>s\<close> (non-negative, as the claim has it, and
  negative as well) and every flag \<open>f\<close>, passing the decimal text of \<open>s\<close> gives the same
  results as passing \<open>s\<close> itself, to \<open>hasPermission\<close> and to \<open>getPermissionFlags\<close>;
  the integers are unbounded, so no bit is lost at any width.
\<close>

theorem decimal_text_same_results:
  "hasPermission (Str (bigint_toString s)) f = hasPermission (Big s) f
   \<and> getPermissionFlags (Str (bigint_toString s)) = getPermissionFlags (Big s)"
  by (simp add: hasPermission_def getPermissionFlags_def to_bigint_def BigInt_toString)

theorem decimal_text_same_results_witness:
  "hasPermission (Str (bigint_toString (push_bit 64 1 + 8))) 8 = hasPermission (Big (push_bit 64 1 + 8)) 8
   \<and> getPermissionFlags (Str (bigint_toString (push_bit 64 1 + 8))) = getPermissionFlags (Big (push_bit 64 1 + 8))"
  using decimal_text_same_results [of "push_bit 64 1 + 8" 8] by simp

section \<open>Properties of the client\<close>

subsection \<open>Request errors\<close>

lemma errorMessage_expected:
  "errorMessage_of (errorData_of response) (statusText response) = expected_message response"
proof (cases "is_json_content response")
  case False
  then show ?thesis
    by (simp add: errorMessage_of_def errorData_of_def expected_message_def body_field_def
        status_fallback_def)
next
  case True
  show ?thesis
  proof (cases "json_body response")
    case None
    with True show ?thesis
      by (simp add: errorMessage_of_def errorData_of_def expected_message_def body_field_def
          status_fallback_def)
  next
    case (Some parsed)
    with True show ?thesis
      by (cases parsed)
        (simp_all add: errorMessage_of_def errorData_of_def expected_message_def body_field_def
          status_fallback_def split: option.splits)
  qed
qed

lemma errorData_field:
  "Option.bind (errorData_of response) (\<lambda>d. js_get d key) = body_field response key"
proof (cases "is_json_content response")
  case False
  then show ?thesis
    by (simp add: errorData_of_def body_field_def)
next
  case True
  show ?thesis
  proof (cases "json_body response")
    case None
    with True show ?thesis
      by (simp add: errorData_of_def body_field_def)
  next
    case (Some parsed)
    with True show ?thesis
      by (cases parsed) (simp_all add: errorData_of_def body_field_def)
  qed
qed



lemma ToString_trap:
  "(toString_trap v \<and> js_ToString v = Inl TypeError)
     \<or> (\<not> toString_trap v \<and> (\<exists>t. js_ToString v = Inr t))"
  "(any_toString_trap vs \<and> elements_text vs = Inl TypeError)
     \<or> (\<not> any_toString_trap vs \<and> (\<exists>ts. elements_text vs = Inr ts))"
proof (induction v and vs rule: js_ToString_elements_text.induct)
  case (5 xs)
  then show ?case by auto
next
  case (6 kvs)
  then show ?case by (cases "map_of kvs ''toString''") auto
next
  case (8 x xs)
  show ?case
  proof (cases "x = JNull")
    case True
    with 8(2) show ?thesis by auto
  next
    case False
    with 8 show ?thesis by auto
  qed
qed simp_all

lemma request_thrown:
  assumes "fetch url options = Inr response" and "\<not> ok response"
  shows "HttpClient_request fetch url options =
           (Inl (case js_ToString (expected_message response) of
                   Inl e \<Rightarrow> e
                 | Inr t \<Rightarrow>
                     DiscordAPIRequestError t (status response)
                       (body_field response ''code'') (body_field response ''errors'')),
            [(url, options)])"
  using assms
  by (simp add: HttpClient_request_def Let_def DiscordAPIRequestError_new_def
      errorMessage_expected errorData_field split: sum.splits)


lemma request_toString_trap:
  assumes "fetch url options = Inr response" and "\<not> ok response"
    and "toString_trap (expected_message response)"
  shows "HttpClient_request fetch url options = (Inl TypeError, [(url, options)])"
proof -
  from assms(3) have "js_ToString (expected_message response) = Inl TypeError"
    using ToString_trap(1) [of "expected_message response"] by blast
  then show ?thesis
    using request_thrown [of fetch url options response, OF assms(1,2)] by simp
qed



text \<open>
  The same through a client operation: a 400 response whose JSON body has the message
  \<open>invalid_grant\<close> and the code 5 makes \<open>refreshToken\<close> raise a request error
  with exactly these.
\<close>

lemma refreshToken_invalid_grant:
  "fst (refreshToken (\<lambda>u opts. Inr invalid_grant_response) sample_client ''rt'') =
     Inl (DiscordAPIRequestError ''invalid_grant'' 400 (Some (JNum (safe_integer_of 5))) None)"
  by (simp add: refreshToken_def HttpClient_post_def HttpClient_request_def
      invalid_grant_response_def ok_def errorData_of_def errorMessage_of_def is_json_content_def
      DiscordAPIRequestError_new_def)

subsection \<open>Construction and local validation\<close>

text \<open>
  Claim C2 as stated does not hold: the error of the constructor is not of the class
  \<open>ConfigurationError\<close>. With an empty redirect URI the constructor raises, but the
  error is a \<open>ValidationError\<close>, a sibling class.
\<close>

theorem constructor_error_class_counterexample:
  "\<not> raises is_ConfigurationError
       (OAuth2Client_constructor
          \<lparr>opt_clientId = Some ''123'', opt_clientSecret = Some ''secret'',
           opt_redirectUri = Some [], opt_apiEndpoint = None, opt_botToken = None\<rparr>)"
  by (simp add: raises_def OAuth2Client_constructor_def falsy_def)

text \<open>
  Claim C2, amended. Constructing the client with a missing or empty client identifier,
  client secret or redirect URI raises a \<open>ValidationError\<close>, and so does
  \<open>setBotToken\<close> with an empty value. Neither function has access to the transport,
  so no network call precedes the error.
\<close>

theorem constructor_validation:
  "(falsy (opt_clientId options) \<or> falsy (opt_clientSecret options) \<or> falsy (opt_redirectUri options)
      \<longrightarrow> OAuth2Client_constructor options =
            Inl (ValidationError ''clientId, clientSecret, and redirectUri are required'')
          \<and> raises is_ValidationError (OAuth2Client_constructor options))
   \<and> setBotToken this [] = Inl (ValidationError ''Bot token is required'')
   \<and> raises is_ValidationError (setBotToken this [])"
  by (simp add: OAuth2Client_constructor_def setBotToken_def raises_def)

theorem constructor_validation_witness:
  "falsy (opt_redirectUri
       \<lparr>opt_clientId = Some ''123'', opt_clientSecret = Some ''secret'',
        opt_redirectUri = None, opt_apiEndpoint = None, opt_botToken = None\<rparr>)
   \<and> OAuth2Client_constructor
       \<lparr>opt_clientId = Some ''123'', opt_clientSecret = Some ''secret'',
        opt_redirectUri = None, opt_apiEndpoint = None, opt_botToken = None\<rparr> =
       Inl (ValidationError ''clientId, clientSecret, and redirectUri are required'')
   \<and> setBotToken sample_client [] = Inl (ValidationError ''Bot token is required'')"
proof -
  have h: "falsy (opt_redirectUri
       \<lparr>opt_clientId = Some ''123'', opt_clientSecret = Some ''secret'',
        opt_redirectUri = None, opt_apiEndpoint = None, opt_botToken = None\<rparr>)"
    by (simp add: falsy_def)
  show ?thesis
    using h constructor_validation
      [of "\<lparr>opt_clientId = Some ''123'', opt_clientSecret = Some ''secret'',
            opt_redirectUri = None, opt_apiEndpoint = None, opt_botToken = None\<rparr>" sample_client]
    by blast
qed

text \<open>
  Claim C5. \<open>generateAuthUrl\<close> with an empty (or missing) list of scopes, and
  \<open>exchangeCode\<close>, \<open>refreshToken\<close>, \<open>revokeToken\<close>,
  \<open>getCurrentAuthorizationInfo\<close>, \<open>getUser\<close>, \<open>getUserGuilds\<close> and
  \<open>getUserConnections\<close> with an empty string argument, raise a \<open>ValidationError\<close>,
  whatever the transport and the client are, and the list of transport calls is empty.
\<close>

theorem empty_argument_validation:
  "generateAuthUrl this (options\<lparr>auth_scopes := Some []\<rparr>) =
     Inl (ValidationError ''At least one scope is required'')
   \<and> generateAuthUrl this (options\<lparr>auth_scopes := None\<rparr>) =
     Inl (ValidationError ''At least one scope is required'')
   \<and> exchangeCode fetch this [] = (Inl (ValidationError ''Authorization code is required''), [])
   \<and> refreshToken fetch this [] = (Inl (ValidationError ''Refresh token is required''), [])
   \<and> revokeToken fetch this [] hint = (Inl (ValidationError ''Token is required''), [])
   \<and> getCurrentAuthorizationInfo fetch this [] = (Inl (ValidationError ''Access token is required''), [])
   \<and> getUser fetch this [] = (Inl (ValidationError ''Access token is required''), [])
   \<and> getUserGuilds fetch this [] = (Inl (ValidationError ''Access token is required''), [])
   \<and> getUserConnections fetch this [] = (Inl (ValidationError ''Access token is required''), [])"
  by (simp add: generateAuthUrl_def exchangeCode_def refreshToken_def revokeToken_def
      getCurrentAuthorizationInfo_def getUser_def getUserGuilds_def getUserConnections_def)

theorem empty_argument_validation_witness:
  "exchangeCode no_content_fetch sample_client [] =
     (Inl (ValidationError ''Authorization code is required''), [])
   \<and> getUser no_content_fetch sample_client [] =
     (Inl (ValidationError ''Access token is required''), [])
   \<and> raises is_ValidationError (fst (revokeToken no_content_fetch sample_client [] None))
   \<and> snd (revokeToken no_content_fetch sample_client [] None) = []"
  using empty_argument_validation [of sample_client _ no_content_fetch None]
  by (simp add: raises_def)

lemma HttpClient_request_calls: "snd (HttpClient_request fetch url options) = [(url, options)]"
  by (simp add: HttpClient_request_def)

lemma discard_calls: "snd (discard p) = snd p"
  by (simp add: discard_def)

lemma HttpClient_put_calls:
  "snd (HttpClient_put fetch url content [(''Authorization'', v)]) =
     [(url, \<lparr>method = PUT,
              headers = [(''User-Agent'', user_agent), (''Content-Type'', ''application/json''),
                         (''Authorization'', v)],
              body = Some content\<rparr>)]"
  by (simp add: HttpClient_put_def HttpClient_request_calls object_spread_def)

lemma defined_properties_first:
  "\<exists>rest. defined_properties ((key, Some x) # props) = JObj ((key, x) # rest)"
  by (simp add: defined_properties_def)

text \<open>
  Claim C4. Without a bot credential (none, or an empty one) \<open>addUserToGuild\<close> raises
  a \<open>ValidationError\<close> and makes no transport call. With a bot credential and
  non-empty guild id, user id and user access token it makes exactly one transport call:
  a PUT to the API endpoint followed by \<open>/guilds/{guild}/members/{user}\<close>, whose
  \<open>Authorization\<close> header is \<open>Bot\<close>, a space and the token, and whose body is the
  JSON text of an object that starts with the property \<open>access_token\<close> holding the
  supplied access token.
\<close>

theorem addUserToGuild_request:
  "(falsy (botToken this) \<longrightarrow>
      addUserToGuild fetch this guild user token options =
        (Inl (ValidationError ''Bot token is required to add members to a guild''), []))
   \<and> (botToken this = Some tok \<and> tok \<noteq> [] \<and> guild \<noteq> [] \<and> user \<noteq> [] \<and> token \<noteq> [] \<longrightarrow>
        (\<exists>rest. snd (addUserToGuild fetch this guild user token options) =
           [(apiEndpoint this @ ''/guilds/'' @ guild @ ''/members/'' @ user,
             \<lparr>method = PUT,
              headers = [(''User-Agent'', user_agent), (''Content-Type'', ''application/json''),
                         (''Authorization'', ''Bot '' @ tok)],
              body = Some (JSON_stringify (JObj ((''access_token'', JStr token) # rest)))\<rparr>)]))"
proof (intro conjI impI)
  assume "falsy (botToken this)"
  then show "addUserToGuild fetch this guild user token options =
      (Inl (ValidationError ''Bot token is required to add members to a guild''), [])"
    by (simp add: addUserToGuild_def)
next
  let ?props = "[(''nick'', map_option JStr (nick options)),
                 (''roles'', map_option (\<lambda>rs. JArr (map JStr rs)) (roles options)),
                 (''mute'', map_option JBool (mute options)),
                 (''deaf'', map_option JBool (deaf options))]"
  assume a: "botToken this = Some tok \<and> tok \<noteq> [] \<and> guild \<noteq> [] \<and> user \<noteq> [] \<and> token \<noteq> []"
  obtain rest where rest:
    "defined_properties ((''access_token'', Some (JStr token)) # ?props) =
       JObj ((''access_token'', JStr token) # rest)"
    using defined_properties_first by blast
  from a have "snd (addUserToGuild fetch this guild user token options) =
      [(apiEndpoint this @ ''/guilds/'' @ guild @ ''/members/'' @ user,
        \<lparr>method = PUT,
         headers = [(''User-Agent'', user_agent), (''Content-Type'', ''application/json''),
                    (''Authorization'', ''Bot '' @ tok)],
         body = Some (JSON_stringify
           (defined_properties ((''access_token'', Some (JStr token)) # ?props)))\<rparr>)]"
    by (simp add: addUserToGuild_def falsy_def or_default_def Let_def discard_calls
        HttpClient_put_calls)
  then show "\<exists>rest. snd (addUserToGuild fetch this guild user token options) =
      [(apiEndpoint this @ ''/guilds/'' @ guild @ ''/members/'' @ user,
        \<lparr>method = PUT,
         headers = [(''User-Agent'', user_agent), (''Content-Type'', ''application/json''),
                    (''Authorization'', ''Bot '' @ tok)],
         body = Some (JSON_stringify (JObj ((''access_token'', JStr token) # rest)))\<rparr>)]"
    unfolding rest by (rule exI)
qed

theorem addUserToGuild_request_witness:
  "falsy (botToken (sample_client\<lparr>botToken := None\<rparr>))
   \<and> addUserToGuild no_content_fetch (sample_client\<lparr>botToken := None\<rparr>) ''1'' ''2'' ''at''
        \<lparr>nick = None, roles = None, mute = None, deaf = None\<rparr> =
       (Inl (ValidationError ''Bot token is required to add members to a guild''), [])
   \<and> botToken sample_client = Some ''tok''
   \<and> length (snd (addUserToGuild no_content_fetch sample_client ''1'' ''2'' ''at''
        \<lparr>nick = None, roles = None, mute = None, deaf = None\<rparr>)) = 1"
proof -
  have h: "falsy (botToken (sample_client\<lparr>botToken := None\<rparr>))"
    by (simp add: falsy_def)
  have k: "botToken sample_client = Some ''tok'' \<and> ''tok'' \<noteq> [] \<and> ''1'' \<noteq> [] \<and> ''2'' \<noteq> []
      \<and> ''at'' \<noteq> []"
    by (simp add: sample_client_def)
  from h have first: "addUserToGuild no_content_fetch (sample_client\<lparr>botToken := None\<rparr>) ''1'' ''2'' ''at''
        \<lparr>nick = None, roles = None, mute = None, deaf = None\<rparr> =
       (Inl (ValidationError ''Bot token is required to add members to a guild''), [])"
    using addUserToGuild_request
      [of "sample_client\<lparr>botToken := None\<rparr>" no_content_fetch "''1''" "''2''" "''at''"
        "\<lparr>nick = None, roles = None, mute = None, deaf = None\<rparr>"]
    by blast
  from k have "length (snd (addUserToGuild no_content_fetch sample_client ''1'' ''2'' ''at''
        \<lparr>nick = None, roles = None, mute = None, deaf = None\<rparr>)) = 1"
    using addUserToGuild_request
      [of sample_client no_content_fetch "''1''" "''2''" "''at''"
        "\<lparr>nick = None, roles = None, mute = None, deaf = None\<rparr>" "''tok''"]
    by auto
  with h k first show ?thesis by blast
qed

text \<open>The request of a sample call, computed.\<close>

lemma addUserToGuild_sample:
  \<open>addUserToGuild no_content_fetch sample_client ''1'' ''2'' ''at''
     \<lparr>nick = Some ''n'', roles = Some [''7'', ''8''], mute = None, deaf = Some False\<rparr> =
     (Inr (),
      [(''https://discord.com/api/v10/guilds/1/members/2'',
        \<lparr>method = PUT,
         headers = [(''User-Agent'', ''discord-oauth2 (https://github.com/0neShot101/discord-oauth2)''),
                    (''Content-Type'', ''application/json''),
                    (''Authorization'', ''Bot tok'')],
         body = Some ''{"access_token":"at","nick":"n","roles":["7","8"],"deaf":false}''\<rparr>)])\<close>
  by code_simp

subsection \<open>The bot install URL\<close>







end
